theory Spec2Isabelle
  imports Main "HOL-Library.Sublist"
begin

section \<open>ATS resume converter: prompt construction and response extraction\<close>

text \<open>
  A shallow embedding of \<^verbatim>\<open>ats_resume_converter.py\<close>.

  A Python \<^verbatim>\<open>str\<close> is modelled as a \<^typ>\<open>string\<close> holding the bytes of its UTF-8
  encoding. The string operations of \<^verbatim>\<open>build_prompt\<close> that look for a character
  look for \<^verbatim>\<open>{\<close>, \<^verbatim>\<open>}\<close> or a space, all of them ASCII, and an ASCII byte never
  occurs inside the encoding of another character, so these operations act on the bytes
  as they act on the code points. \<^verbatim>\<open>str.lower\<close> is the ASCII letter map on a string of
  ASCII characters; on any other string it is the case mapping of Unicode, which is no
  part of the program and is a parameter of the model.

  Exceptions are values: a function that can raise returns \<open>exn + 'a\<close>, with
  \<^term>\<open>Inl\<close> for the exception raised.
\<close>

subsection \<open>Python values and exceptions\<close>

datatype pykey = KStr string | KInt int

datatype exn =
    ValueError string
  | KeyError pykey
  | IndexError
  | TypeError
  | AttributeError string
  | OSError string
  | APIError string
  | RuntimeError string exn
  | Unmodelled

text \<open>
  \<^term>\<open>RuntimeError msg cause\<close> is \<^verbatim>\<open>raise RuntimeError(msg) from cause\<close>.
  \<^term>\<open>APIError\<close> stands for whatever the OpenAI client raises (authentication, rate
  limit, timeout, network), \<^term>\<open>OSError\<close> for whatever opening or reading a file
  raises; both carry the text of the exception. \<^term>\<open>Unmodelled\<close> is not a Python
  exception: it marks a format string that leaves the fragment of the format
  mini-language modelled below.
\<close>

definition bind_exn :: "exn + 'a \<Rightarrow> ('a \<Rightarrow> exn + 'b) \<Rightarrow> exn + 'b" where
  "bind_exn r f = (case r of Inl e \<Rightarrow> Inl e | Inr v \<Rightarrow> f v)"

subsection \<open>The string operations of Python that the program uses\<close>

text \<open>\<^verbatim>\<open>s.replace(old, new)\<close> for a one-character \<^verbatim>\<open>old\<close>: every occurrence is replaced.\<close>

definition str_replace :: "char \<Rightarrow> string \<Rightarrow> string \<Rightarrow> string" where
  "str_replace old new s = concat (map (\<lambda>c. if c = old then new else [c]) s)"

definition ascii_uppercase :: string where
  "ascii_uppercase = ''ABCDEFGHIJKLMNOPQRSTUVWXYZ''"

definition ascii_lowercase :: string where
  "ascii_lowercase = ''abcdefghijklmnopqrstuvwxyz''"

text \<open>An ASCII character is a byte below 128: its highest bit is not set.\<close>

definition is_ascii :: "char \<Rightarrow> bool" where
  "is_ascii c = (\<not> digit7 c)"

text \<open>Lower case of an ASCII character: \<^verbatim>\<open>A\<close> to \<^verbatim>\<open>Z\<close> go to \<^verbatim>\<open>a\<close> to \<^verbatim>\<open>z\<close>.\<close>

definition ascii_lower_char :: "char \<Rightarrow> char" where
  "ascii_lower_char c =
     (case map_of (zip ascii_uppercase ascii_lowercase) c of None \<Rightarrow> c | Some d \<Rightarrow> d)"

text \<open>
  \<^verbatim>\<open>s.lower()\<close>. On a string of ASCII characters Python lowers the letters \<^verbatim>\<open>A\<close> to
  \<^verbatim>\<open>Z\<close> and changes nothing else. On a string with a character outside ASCII it
  applies the case mapping of Unicode to the whole string (the mapping can change the
  number of characters and looks at the position of a letter in its word); that mapping
  is the parameter \<open>ul\<close>, and the model says nothing about it.
\<close>

definition str_lower :: "(string \<Rightarrow> string) \<Rightarrow> string \<Rightarrow> string" where
  "str_lower ul s = (if list_all is_ascii s then map ascii_lower_char s else ul s)"

text \<open>
  \<^verbatim>\<open>template.format\<close> called with keyword arguments only, all of them strings. The
  format string is read once from left to right: \<^verbatim>\<open>{{\<close> and \<^verbatim>\<open>}}\<close> give one brace, a
  lone \<^verbatim>\<open>}\<close> or an unclosed \<^verbatim>\<open>{\<close> raises \<^verbatim>\<open>ValueError\<close>, and \<^verbatim>\<open>{name}\<close> is replaced by
  the keyword argument of that name (\<^verbatim>\<open>KeyError\<close> when there is none). An empty or
  all-digit name refers to a positional argument, of which there are none
  (\<^verbatim>\<open>IndexError\<close>). The value put in place of a field is copied to the output and
  never read as format syntax. Fields with a conversion (\<^verbatim>\<open>!\<close>), a format
  specification (\<^verbatim>\<open>:\<close>), an attribute or index access (\<^verbatim>\<open>.\<close>, \<^verbatim>\<open>[\<close>) or a nested
  brace are outside the model.
\<close>

definition emit :: "string \<Rightarrow> exn + string \<Rightarrow> exn + string" where
  "emit s r = (case r of Inl e \<Rightarrow> Inl e | Inr t \<Rightarrow> Inr (s @ t))"

definition is_digit :: "char \<Rightarrow> bool" where
  "is_digit c = (c \<in> set ''0123456789'')"

definition get_field :: "string \<Rightarrow> (string \<times> string) list \<Rightarrow> exn + string" where
  "get_field name kwargs =
     (if list_all is_digit name then Inl IndexError
      else case map_of kwargs name of
             None \<Rightarrow> Inl (KeyError (KStr name))
           | Some v \<Rightarrow> Inr v)"

fun str_format :: "string \<Rightarrow> (string \<times> string) list \<Rightarrow> exn + string"
and replacement_field :: "string \<Rightarrow> string \<Rightarrow> (string \<times> string) list \<Rightarrow> exn + string"
where
  "str_format [] kwargs = Inr []"
| "str_format [c] kwargs =
     (if c = CHR ''{'' then Inl (ValueError ''Single '{' encountered in format string'')
      else if c = CHR ''}'' then Inl (ValueError ''Single '}' encountered in format string'')
      else Inr [c])"
| "str_format (c # d # s) kwargs =
     (if c = CHR ''{'' then
        (if d = CHR ''{'' then emit ''{'' (str_format s kwargs)
         else replacement_field [] (d # s) kwargs)
      else if c = CHR ''}'' then
        (if d = CHR ''}'' then emit ''}'' (str_format s kwargs)
         else Inl (ValueError ''Single '}' encountered in format string''))
      else emit [c] (str_format (d # s) kwargs))"
| "replacement_field name [] kwargs = Inl (ValueError ''expected '}' before end of string'')"
| "replacement_field name (c # s) kwargs =
     (if c = CHR ''}'' then
        (case get_field name kwargs of
           Inl e \<Rightarrow> Inl e
         | Inr v \<Rightarrow> emit v (str_format s kwargs))
      else if c \<in> set ''{!:.['' then Inl Unmodelled
      else replacement_field (name @ [c]) s kwargs)"

text \<open>The names of the replacement fields of a format string, in order, read the same way.\<close>

fun field_names :: "string \<Rightarrow> string list"
and field_name_rest :: "string \<Rightarrow> string \<Rightarrow> string list"
where
  "field_names [] = []"
| "field_names [c] = []"
| "field_names (c # d # s) =
     (if c = CHR ''{'' then
        (if d = CHR ''{'' then field_names s else field_name_rest [] (d # s))
      else if c = CHR ''}'' then
        (if d = CHR ''}'' then field_names s else [])
      else field_names (d # s))"
| "field_name_rest name [] = []"
| "field_name_rest name (c # s) =
     (if c = CHR ''}'' then name # field_names s
      else if c \<in> set ''{!:.['' then []
      else field_name_rest (name @ [c]) s)"

subsection \<open>The instruction template\<close>

text \<open>
  \<^verbatim>\<open>PROMPT_DOCSTRING\<close>, written line by line and cut at its seven replacement fields:
  \<open>text_0\<close> to \<open>text_7\<close> are the text before, between and after them. The three
  characters of the template outside ASCII (an em dash, an en dash and a
  less-or-equal sign) are their three UTF-8 bytes each.
\<close>

definition text_0 :: string where
  \<open>text_0 =
     ''Persona:\<newline>'' @
     ''You are a Senior Recruiter at a top-tier technology firm with 10+ years of experience screening resumes for product and engineering roles. Be exacting, objective, and metrics-first. Act with the authority of an industry hiring lead: prefer modern, active language and quantifiable results.\<newline>'' @
     ''\<newline>'' @
     ''Context:\<newline>'' @
     ''You will receive three inputs:\<newline>'' @
     ''- raw_career_data: the applicant's existing / old career text. Placeholder: ''\<close>

definition text_1 :: string where
  \<open>text_1 =
     ''\<newline>'' @
     ''- target_job_description: the target job description (JD) to optimize against. Placeholder: ''\<close>

definition text_2 :: string where
  \<open>text_2 =
     ''\<newline>'' @
     ''- user_name: the candidate's name for personalization. Placeholder: ''\<close>

definition text_3 :: string where
  \<open>text_3 =
     ''\<newline>'' @
     ''\<newline>'' @
     ''Primary Objective:\<newline>'' @
     ''Transform the raw career data into a single-column, ATS-optimized resume aligned to the target job description. The final resume must be concise, use standard all-caps section headers, and emphasize measurable achievements using the $X-Y-Z$ formula: "Accomplished [X] as measured by [Y] by doing [Z]". If the raw data lacks metrics, insert plausible placeholder metrics in square brackets, e.g., [increased % by 20%] or [reduced time by 2 days].\<newline>'' @
     ''\<newline>'' @
     ''Instruction Set (strict '' @ [CHR 0xE2, CHR 0x80, CHR 0x94] @ '' follow exactly):\<newline>'' @
     ''\<newline>'' @
     ''1) KEYWORD DENSITY ANALYSIS\<newline>'' @
     ''- Identify and prioritize keywords in ''\<close>

definition text_4 :: string where
  \<open>text_4 =
     ''. Produce an internal list of top keywords (no need to output them). Use that list to maximize keyword overlap in the resume.\<newline>'' @
     ''- When a JD skill appears verbatim (e.g., "SQL", "agile delivery", "KPI dashboards"), preserve the same tokenization and capitalization.\<newline>'' @
     ''\<newline>'' @
     ''2) BULLET REWRITES (Experience)\<newline>'' @
     ''- For every experience statement in ''\<close>

definition text_5 :: string where
  \<open>text_5 =
     '', rewrite into 3'' @ [CHR 0xE2, CHR 0x80, CHR 0x93] @ ''5 achievement bullets using the $X-Y-Z$ formula.\<newline>'' @
     ''- Start each bullet with a strong past-tense action verb (e.g., "Led", "Architected", "Reduced", "Scaled", "Automated").\<newline>'' @
     ''- Always quantify impact. If raw input lacks numeric results, insert a plausible placeholder in square brackets, e.g., "[+30%]", "[saved 2 days/week]", "[$X]".\<newline>'' @
     ''- Keep each bullet '' @ [CHR 0xE2, CHR 0x89, CHR 0xA4] @ '' 140 characters when possible, but do not truncate essential metrics.\<newline>'' @
     ''\<newline>'' @
     ''3) PROFESSIONAL SUMMARY\<newline>'' @
     ''- Produce a 4-line PROFESSIONAL SUMMARY tailored to the JD. Each line must be a complete sentence (not fragments), include at least one high-priority keyword from the JD, and emphasize impact.\<newline>'' @
     ''\<newline>'' @
     ''4) OUTPUT STRUCTURE & FORMATTING RULES\<newline>'' @
     ''- The final resume output MUST use only these section headers in ALL CAPS: CONTACT, SUMMARY, SKILLS, EXPERIENCE, EDUCATION.\<newline>'' @
     ''- Use a single-column plain-text layout. No tables, no special characters except simple bullets using a single asterisk ('' @ ''*'' @ '') or hyphen (-).\<newline>'' @
     ''- For CONTACT, include only: ''\<close>

definition text_6 :: string where
  \<open>text_6 =
     '' (Full Name), placeholder email: ''\<close>

definition text_7 :: string where
  \<open>text_7 =
     ''@example.com, phone placeholder: +91-XXXXXXXXXX, location placeholder: City, Country.\<newline>'' @
     ''- For SKILLS, present a comma-separated list of hard and soft skills (prioritize JD keywords).\<newline>'' @
     ''- For EXPERIENCE, present roles in reverse-chronological order. For each role: Company Name, Role Title, Dates (use placeholders if missing). Under each role, provide 3'' @ [CHR 0xE2, CHR 0x80, CHR 0x93] @ ''5 bullets, each following the $X-Y-Z$ formula and containing at least one JD keyword.\<newline>'' @
     ''- For EDUCATION, supply Degree, University, Graduation Year (use placeholders if missing).\<newline>'' @
     ''\<newline>'' @
     ''5) OUTPUT REQUIREMENT (very strict)\<newline>'' @
     ''- The model MUST output the final resume text **only**, preceded by the delimiter:\<newline>'' @
     ''  ***ATS_OUTPUT_START***\<newline>'' @
     ''- The final resume text must be enclosed **only once** inside a Markdown code block with triple backticks and plain text (```).\<newline>'' @
     ''- Additionally (automation constraint), the overall result must be presented as three separate Markdown code blocks: an empty code block first, the required code block containing the resume (with delimiter) second, and an empty code block third. Example structure:\<newline>'' @
     ''  ```\<newline>'' @
     ''  ``` \<newline>'' @
     ''  ``` \<newline>'' @
     ''  ***ATS_OUTPUT_START***\<newline>'' @
     ''  <FINAL RESUME TEXT '' @ [CHR 0xE2, CHR 0x80, CHR 0x94] @ '' EXACT FORMAT AS SPECIFIED>\<newline>'' @
     ''  ```\<newline>'' @
     ''  ```\<newline>'' @
     ''- Do not output any extra commentary, analysis, keyword lists, or JSON. Do not provide usage instructions. The response must contain exactly three Markdown code blocks as described (first and third empty), where the second contains the delimiter and the final resume.\<newline>'' @
     ''\<newline>'' @
     ''6) LANGUAGE & STYLE\<newline>'' @
     ''- Use present-day, modern professional English. Avoid flowery language. Prefer measurable, precise terms.\<newline>'' @
     ''- Avoid personal pronouns except in the CONTACT header for the name.\<newline>'' @
     ''- Use American English spelling (e.g., "optimized", "analyzed").\<newline>'' @
     ''\<newline>'' @
     ''7) ERROR HANDLING RULES\<newline>'' @
     ''- If the raw data is extremely short or missing, synthesize reasonable industry-typical experience using placeholders in square brackets, but do not invent company names.\<newline>'' @
     ''- Never invent private/sensitive details (SSNs, real phone numbers, personal IDs).\<newline>'' @
     ''\<newline>'' @
     ''8) DELIVERABLE\<newline>'' @
     ''- Only the final ATS-optimized resume as described, embedded in the second of three Markdown code blocks and preceded by the exact delimiter ***ATS_OUTPUT_START***.\<newline>''\<close>

definition PROMPT_DOCSTRING :: string where
  "PROMPT_DOCSTRING =
     text_0 @ ''{raw_career_data}'' @
     text_1 @ ''{target_job_description}'' @
     text_2 @ ''{user_name}'' @
     text_3 @ ''{target_job_description}'' @
     text_4 @ ''{raw_career_data}'' @
     text_5 @ ''{user_name}'' @
     text_6 @ ''{user_name_lower}'' @
     text_7"

subsection \<open>The prompt builder\<close>

definition user_name_lower :: "(string \<Rightarrow> string) \<Rightarrow> string \<Rightarrow> string" where
  "user_name_lower ul user_name = str_replace CHR '' '' '''' (str_lower ul user_name)"

definition escape_braces :: "string \<Rightarrow> string" where
  "escape_braces s = str_replace CHR ''}'' ''}}'' (str_replace CHR ''{'' ''{{'' s)"

definition build_prompt ::
  "(string \<Rightarrow> string) \<Rightarrow> string \<Rightarrow> string \<Rightarrow> string \<Rightarrow> exn + string" where
  "build_prompt ul raw_career_data target_job_description user_name =
     (let safe_rcd = escape_braces raw_career_data;
          safe_jd = escape_braces target_job_description
      in str_format PROMPT_DOCSTRING
           [(''raw_career_data'', safe_rcd),
            (''target_job_description'', safe_jd),
            (''user_name'', user_name),
            (''user_name_lower'', user_name_lower ul user_name)])"

definition placeholder_tokens :: "string list" where
  "placeholder_tokens =
     [''{raw_career_data}'', ''{target_job_description}'', ''{user_name}'', ''{user_name_lower}'']"

subsection \<open>Responses of the completion service\<close>

text \<open>
  What \<^verbatim>\<open>openai.ChatCompletion.create\<close> returns is not fixed by the program. A response
  is a Python value of one of these shapes: \<^verbatim>\<open>None\<close>, a string, an integer, a list,
  a \<^verbatim>\<open>dict\<close> (subscription by key only), an object with named attributes (no
  subscription), or the client library's \<^verbatim>\<open>OpenAIObject\<close>, a \<^verbatim>\<open>dict\<close> whose string keys
  can also be read as attributes. Keys are strings or integers.
\<close>

datatype pyval =
    PNone
  | PStr string
  | PInt int
  | PList "pyval list"
  | PDict "(pykey \<times> pyval) list"
  | PObject "(string \<times> pyval) list"
  | POpenAIObject "(pykey \<times> pyval) list"

text \<open>
  \<^verbatim>\<open>xs[i]\<close> on a sequence: position \<open>i\<close> from the front when \<open>i\<close> is not negative,
  position \<open>-i\<close> from the back when it is, and nothing outside the sequence.
\<close>

definition seq_index :: "'a list \<Rightarrow> int \<Rightarrow> 'a option" where
  "seq_index xs i =
     (if 0 \<le> i then (if nat i < length xs then Some (xs ! nat i) else None)
      else (if nat (- i) \<le> length xs then Some (xs ! (length xs - nat (- i))) else None))"

text \<open>
  \<^verbatim>\<open>v[k]\<close>. A string is indexed here by byte; the program only ever takes index \<^verbatim>\<open>0\<close>
  and then subscripts the result with a string key, which raises \<^verbatim>\<open>TypeError\<close> for
  every string.
\<close>

fun getitem :: "pyval \<Rightarrow> pykey \<Rightarrow> exn + pyval" where
  "getitem (PDict kvs) k =
     (case map_of kvs k of None \<Rightarrow> Inl (KeyError k) | Some v \<Rightarrow> Inr v)"
| "getitem (POpenAIObject kvs) k =
     (case map_of kvs k of None \<Rightarrow> Inl (KeyError k) | Some v \<Rightarrow> Inr v)"
| "getitem (PList xs) (KInt i) =
     (case seq_index xs i of None \<Rightarrow> Inl IndexError | Some v \<Rightarrow> Inr v)"
| "getitem (PStr s) (KInt i) =
     (case seq_index s i of None \<Rightarrow> Inl IndexError | Some c \<Rightarrow> Inr (PStr [c]))"
| "getitem v k = Inl TypeError"

text \<open>
  \<^verbatim>\<open>v.name\<close>, for the three names the program reads (\<^verbatim>\<open>choices\<close>, \<^verbatim>\<open>message\<close>,
  \<^verbatim>\<open>content\<close>), which none of the built-in types defines.
\<close>

fun getattr :: "pyval \<Rightarrow> string \<Rightarrow> exn + pyval" where
  "getattr (PObject attrs) a =
     (case map_of attrs a of None \<Rightarrow> Inl (AttributeError a) | Some v \<Rightarrow> Inr v)"
| "getattr (POpenAIObject kvs) a =
     (case map_of kvs (KStr a) of None \<Rightarrow> Inl (AttributeError a) | Some v \<Rightarrow> Inr v)"
| "getattr v a = Inl (AttributeError a)"

fun truthy :: "pyval \<Rightarrow> bool" where
  "truthy PNone = False"
| "truthy (PStr s) = (s \<noteq> [])"
| "truthy (PInt i) = (i \<noteq> 0)"
| "truthy (PList xs) = (xs \<noteq> [])"
| "truthy (PDict kvs) = (kvs \<noteq> [])"
| "truthy (PObject attrs) = True"
| "truthy (POpenAIObject kvs) = (kvs \<noteq> [])"

subsection \<open>The completion client\<close>

text \<open>The three access paths of \<^verbatim>\<open>call_openai_chat\<close>, in the order it tries them.\<close>

definition path_mapping :: "pyval \<Rightarrow> exn + pyval" where
  "path_mapping resp =
     bind_exn (getitem resp (KStr ''choices'')) (\<lambda>choices.
     bind_exn (getitem choices (KInt 0)) (\<lambda>choice.
     bind_exn (getitem choice (KStr ''message'')) (\<lambda>message.
     getitem message (KStr ''content''))))"

definition path_attribute :: "pyval \<Rightarrow> exn + pyval" where
  "path_attribute resp =
     bind_exn (getattr resp ''choices'') (\<lambda>choices.
     bind_exn (getitem choices (KInt 0)) (\<lambda>choice.
     bind_exn (getattr choice ''message'') (\<lambda>message.
     getattr message ''content'')))"

definition path_legacy :: "pyval \<Rightarrow> exn + pyval" where
  "path_legacy resp =
     bind_exn (getitem resp (KStr ''choices'')) (\<lambda>choices.
     bind_exn (getitem choices (KInt 0)) (\<lambda>choice.
     getitem choice (KStr ''text'')))"

text \<open>
  The nested \<^verbatim>\<open>try\<close>/\<^verbatim>\<open>except Exception\<close> of \<^verbatim>\<open>call_openai_chat\<close>: the value of the
  first path that does not raise is returned as it is, whatever it is.
\<close>

definition extract_text :: "pyval \<Rightarrow> exn + pyval" where
  "extract_text resp =
     (case path_mapping resp of
        Inr v \<Rightarrow> Inr v
      | Inl _ \<Rightarrow>
          (case path_attribute resp of
             Inr v \<Rightarrow> Inr v
           | Inl _ \<Rightarrow>
               (case path_legacy resp of
                  Inr v \<Rightarrow> Inr v
                | Inl exc \<Rightarrow> Inl (RuntimeError ''Unexpected OpenAI response structure'' exc))))"

record 't request =
  req_model :: string
  req_messages :: "(string \<times> string) list list"
  req_temperature :: 't
  req_max_tokens :: int

text \<open>
  \<^verbatim>\<open>create\<close> is \<^verbatim>\<open>openai.ChatCompletion.create\<close>: it answers with a response or raises.
  An exception of \<^verbatim>\<open>create\<close> leaves \<^verbatim>\<open>call_openai_chat\<close> as it is.
\<close>

definition call_openai_chat ::
  "('t request \<Rightarrow> exn + pyval) \<Rightarrow> string \<Rightarrow> string \<Rightarrow> 't \<Rightarrow> int \<Rightarrow> exn + pyval" where
  "call_openai_chat create prompt model temperature max_tokens =
     bind_exn
       (create \<lparr>req_model = model,
                req_messages = [[(''role'', ''system''), (''content'', prompt)]],
                req_temperature = temperature,
                req_max_tokens = max_tokens\<rparr>)
       extract_text"

subsection \<open>The command line program\<close>

definition RAW_SAMPLE :: string where
  \<open>RAW_SAMPLE =
     ''\<newline>'' @
     ''was responsible for managing product releases and coordinating with engineering and design teams. helped improve customer onboarding flow. worked on task automation and maintained product docs. occasionally tracked metrics and produced reports.\<newline>''\<close>

definition JD_SAMPLE :: string where
  \<open>JD_SAMPLE =
     ''\<newline>'' @
     ''We are hiring a Product Manager to drive product strategy and execution for our SaaS analytics product. Responsibilities include: roadmap prioritization, stakeholder management, defining KPIs and dashboards, running A/B experiments, working closely with engineering in agile delivery, and improving user onboarding and activation metrics. Required skills: product strategy, SQL, A/B testing, analytics, stakeholder communication, roadmap planning, OKRs, experimentation.\<newline>''\<close>

record args =
  arg_raw_file :: "string option"
  arg_jd_file :: "string option"
  arg_name :: string
  arg_model :: string
  arg_api_key :: "string option"
  arg_max_tokens :: int

text \<open>
  What the program takes from outside: the case mapping of Unicode that \<^verbatim>\<open>str.lower\<close>
  applies to a name with a character outside ASCII, the environment variable
  \<^verbatim>\<open>OPENAI_API_KEY\<close>,
  the files (\<open>open_read path\<close> is the text of the file, or \<^term>\<open>Inl\<close> the text of
  the exception that opening or reading it raises) and the completion service, called
  with the API key that \<^verbatim>\<open>main\<close> has stored in \<^verbatim>\<open>openai.api_key\<close>.
\<close>

record 't world =
  unicode_lower :: "string \<Rightarrow> string"
  environ_OPENAI_API_KEY :: "string option"
  open_read :: "string \<Rightarrow> string + string"
  create :: "string \<Rightarrow> 't request \<Rightarrow> exn + pyval"

definition read_file_or_default ::
  "(string \<Rightarrow> string + string) \<Rightarrow> string option \<Rightarrow> string \<Rightarrow> exn + string" where
  "read_file_or_default rd path dflt =
     (case path of
        None \<Rightarrow> Inr dflt
      | Some p \<Rightarrow>
          if p = [] then Inr dflt
          else (case rd p of
                  Inr content \<Rightarrow> Inr content
                | Inl msg \<Rightarrow> Inl (RuntimeError (''Failed to read '' @ p @ '': '' @ msg) (OSError msg))))"

text \<open>\<^verbatim>\<open>sys.stdout.write(v)\<close>: the text written, or \<^verbatim>\<open>TypeError\<close> when \<open>v\<close> is not a string.\<close>

definition stdout_write :: "pyval \<Rightarrow> exn + string" where
  "stdout_write v = (case v of PStr s \<Rightarrow> Inr s | _ \<Rightarrow> Inl TypeError)"

datatype outcome = Return int | Raise exn

text \<open>
  \<^verbatim>\<open>main\<close>, from the parsed arguments on: the text written to standard output and how
  \<^verbatim>\<open>main\<close> ends, by returning an exit code or with an exception nobody catches. The
  log messages are left out.
\<close>

definition resolve_api_key :: "'t world \<Rightarrow> args \<Rightarrow> string option" where
  "resolve_api_key w args =
     (case arg_api_key args of
        None \<Rightarrow> environ_OPENAI_API_KEY w
      | Some k \<Rightarrow> if k \<noteq> [] then Some k else environ_OPENAI_API_KEY w)"

definition main :: "('t::zero) world \<Rightarrow> args \<Rightarrow> string \<times> outcome" where
  "main w args =
     (case resolve_api_key w args of
        None \<Rightarrow> ([], Return 2)
      | Some key \<Rightarrow>
          if key = [] then ([], Return 2)
          else
            (case read_file_or_default (open_read w) (arg_raw_file args) RAW_SAMPLE of
               Inl e \<Rightarrow> ([], Raise e)
             | Inr raw \<Rightarrow>
            (case read_file_or_default (open_read w) (arg_jd_file args) JD_SAMPLE of
               Inl e \<Rightarrow> ([], Raise e)
             | Inr jd \<Rightarrow>
            (case build_prompt (unicode_lower w) raw jd (arg_name args) of
               Inl e \<Rightarrow> ([], Raise e)
             | Inr prompt \<Rightarrow>
            (case call_openai_chat (create w key) prompt (arg_model args) 0
                    (arg_max_tokens args) of
               Inl exc \<Rightarrow> ([], Return 3)
             | Inr assistant_text \<Rightarrow>
            (case stdout_write (if truthy assistant_text then assistant_text else PStr []) of
               Inl e \<Rightarrow> ([], Raise e)
             | Inr out \<Rightarrow> (out, Return 0)))))))"

text \<open>
  \<^verbatim>\<open>raise SystemExit(main())\<close>: the exit code of the process is the value \<^verbatim>\<open>main\<close>
  returns; an exception that leaves \<^verbatim>\<open>main\<close> ends the process with exit code 1.
\<close>

definition exit_code :: "outcome \<Rightarrow> int" where
  "exit_code r = (case r of Return c \<Rightarrow> c | Raise e \<Rightarrow> 1)"

text \<open>
  The arguments \<^verbatim>\<open>parse_args\<close> gives for an empty command line when \<^verbatim>\<open>OPENAI_MODEL\<close> is
  not set.
\<close>

definition default_args :: args where
  "default_args =
     \<lparr>arg_raw_file = None, arg_jd_file = None, arg_name = ''Alex Morgan'',
      arg_model = ''gpt-5-thinking-mini'', arg_api_key = None, arg_max_tokens = 1200\<rparr>"

subsection \<open>Predicates used in the statements\<close>

text \<open>The composed prompt exists and one of the four placeholder tokens occurs in it.\<close>

definition has_placeholder :: "exn + string \<Rightarrow> bool" where
  "has_placeholder r =
     (case r of Inl e \<Rightarrow> False | Inr p \<Rightarrow> list_ex (\<lambda>t. sublist t p) placeholder_tokens)"

definition no_brace :: "string \<Rightarrow> bool" where
  "no_brace s = list_all (\<lambda>c. c \<noteq> CHR ''{'' \<and> c \<noteq> CHR ''}'') s"

definition plain_name :: "string \<Rightarrow> bool" where
  "plain_name name = list_all (\<lambda>c. c \<notin> set ''{}!:.['') name"

section \<open>Properties\<close>

subsection \<open>Formatting the template\<close>

lemma emit_Nil: "emit [] r = r"
  by (simp add: emit_def split: sum.splits)

lemma emit_emit: "emit s (emit t r) = emit (s @ t) r"
  by (simp add: emit_def split: sum.splits)

lemma emit_Inr: "emit s (Inr t) = Inr (s @ t)"
  by (simp add: emit_def)

lemma str_format_literal:
  "no_brace lit \<Longrightarrow> str_format (lit @ rest) kw = emit lit (str_format rest kw)"
proof (induction lit)
  case Nil
  show ?case by (simp add: emit_Nil)
next
  case (Cons c lit)
  then have c: "c \<noteq> CHR ''{''" "c \<noteq> CHR ''}''" and nb: "no_brace lit"
    by (simp_all add: no_brace_def)
  show ?case
  proof (cases "lit @ rest")
    case Nil
    then show ?thesis using c by (simp add: emit_def)
  next
    case (Cons d s)
    have "str_format (c # d # s) kw = emit [c] (str_format (d # s) kw)"
      using c by simp
    then show ?thesis
      using Cons.IH [OF nb] Cons by (simp add: emit_emit)
  qed
qed

lemma replacement_field_plain:
  "plain_name name \<Longrightarrow>
   replacement_field acc (name @ CHR ''}'' # rest) kw =
     (case get_field (acc @ name) kw of
        Inl e \<Rightarrow> Inl e
      | Inr v \<Rightarrow> emit v (str_format rest kw))"
  by (induction name arbitrary: acc) (simp_all add: plain_name_def)

lemma str_format_field:
  assumes "plain_name name" "map_of kw name = Some v" "\<not> list_all is_digit name"
  shows "str_format (CHR ''{'' # name @ CHR ''}'' # rest) kw = emit v (str_format rest kw)"
proof (cases name)
  case Nil
  with assms show ?thesis by simp
next
  case (Cons d s)
  with assms(1) have "d \<noteq> CHR ''{''" by (simp add: plain_name_def)
  then have "str_format (CHR ''{'' # name @ CHR ''}'' # rest) kw
      = replacement_field [] (name @ CHR ''}'' # rest) kw"
    using Cons by simp
  then show ?thesis
    using assms by (simp add: replacement_field_plain get_field_def)
qed

lemma str_format_plain_text: "no_brace lit \<Longrightarrow> str_format lit kw = Inr lit"
  using str_format_literal [of lit "[]" kw] by (simp add: emit_def)

lemma no_brace_texts:
  "no_brace text_0" "no_brace text_1" "no_brace text_2" "no_brace text_3"
  "no_brace text_4" "no_brace text_5" "no_brace text_6" "no_brace text_7"
  by (simp_all add: no_brace_def text_0_def text_1_def text_2_def text_3_def
        text_4_def text_5_def text_6_def text_7_def)

lemma field_raw_career_data:
  "map_of kw ''raw_career_data'' = Some v \<Longrightarrow>
   str_format (''{raw_career_data}'' @ rest) kw = emit v (str_format rest kw)"
  using str_format_field [of "''raw_career_data''" kw v rest]
  by (simp add: plain_name_def is_digit_def)

lemma field_target_job_description:
  "map_of kw ''target_job_description'' = Some v \<Longrightarrow>
   str_format (''{target_job_description}'' @ rest) kw = emit v (str_format rest kw)"
  using str_format_field [of "''target_job_description''" kw v rest]
  by (simp add: plain_name_def is_digit_def)

lemma field_user_name:
  "map_of kw ''user_name'' = Some v \<Longrightarrow>
   str_format (''{user_name}'' @ rest) kw = emit v (str_format rest kw)"
  using str_format_field [of "''user_name''" kw v rest]
  by (simp add: plain_name_def is_digit_def)

lemma field_user_name_lower:
  "map_of kw ''user_name_lower'' = Some v \<Longrightarrow>
   str_format (''{user_name_lower}'' @ rest) kw = emit v (str_format rest kw)"
  using str_format_field [of "''user_name_lower''" kw v rest]
  by (simp add: plain_name_def is_digit_def)

lemma str_format_PROMPT_DOCSTRING:
  assumes "map_of kw ''raw_career_data'' = Some a"
      and "map_of kw ''target_job_description'' = Some b"
      and "map_of kw ''user_name'' = Some c"
      and "map_of kw ''user_name_lower'' = Some d"
  shows "str_format PROMPT_DOCSTRING kw =
     Inr (text_0 @ a @ text_1 @ b @ text_2 @ c @ text_3 @ b @
          text_4 @ a @ text_5 @ c @ text_6 @ d @ text_7)"
  unfolding PROMPT_DOCSTRING_def
  by (simp only: str_format_literal [OF no_brace_texts(1)]
        str_format_literal [OF no_brace_texts(2)]
        str_format_literal [OF no_brace_texts(3)]
        str_format_literal [OF no_brace_texts(4)]
        str_format_literal [OF no_brace_texts(5)]
        str_format_literal [OF no_brace_texts(6)]
        str_format_literal [OF no_brace_texts(7)]
        str_format_plain_text [OF no_brace_texts(8)]
        field_raw_career_data [OF assms(1)]
        field_target_job_description [OF assms(2)]
        field_user_name [OF assms(3)]
        field_user_name_lower [OF assms(4)]
        emit_Inr emit_emit append_assoc)

lemma build_prompt_eq:
  "build_prompt ul r j n =
     Inr (text_0 @ escape_braces r @ text_1 @ escape_braces j @ text_2 @ n @ text_3 @
          escape_braces j @ text_4 @ escape_braces r @ text_5 @ n @ text_6 @
          user_name_lower ul n @ text_7)"
  unfolding build_prompt_def Let_def
  by (rule str_format_PROMPT_DOCSTRING) simp_all

subsection \<open>Field names, lower case and braces\<close>

lemma str_replace_delete: "str_replace c [] s = filter (\<lambda>x. x \<noteq> c) s"
  by (induction s) (simp_all add: str_replace_def)

lemma field_names_literal:
  "no_brace lit \<Longrightarrow> field_names (lit @ rest) = field_names rest"
proof (induction lit)
  case Nil
  show ?case by simp
next
  case (Cons c lit)
  then have c: "c \<noteq> CHR ''{''" "c \<noteq> CHR ''}''" and nb: "no_brace lit"
    by (simp_all add: no_brace_def)
  show ?case
  proof (cases "lit @ rest")
    case Nil
    then show ?thesis by simp
  next
    case (Cons d s)
    then show ?thesis using c Cons.IH [OF nb] by simp
  qed
qed

lemma field_name_rest_plain:
  "plain_name name \<Longrightarrow>
   field_name_rest acc (name @ CHR ''}'' # rest) = (acc @ name) # field_names rest"
  by (induction name arbitrary: acc) (simp_all add: plain_name_def)

lemma field_names_field:
  assumes "plain_name name"
  shows "field_names (CHR ''{'' # name @ CHR ''}'' # rest) = name # field_names rest"
proof (cases name)
  case Nil
  then show ?thesis by simp
next
  case (Cons d s)
  with assms have "d \<noteq> CHR ''{''" by (simp add: plain_name_def)
  then have "field_names (CHR ''{'' # name @ CHR ''}'' # rest)
      = field_name_rest [] (name @ CHR ''}'' # rest)"
    using Cons by simp
  then show ?thesis using assms by (simp add: field_name_rest_plain)
qed

lemma field_names_slots:
  "field_names (''{raw_career_data}'' @ rest) = ''raw_career_data'' # field_names rest"
  "field_names (''{target_job_description}'' @ rest) = ''target_job_description'' # field_names rest"
  "field_names (''{user_name}'' @ rest) = ''user_name'' # field_names rest"
  "field_names (''{user_name_lower}'' @ rest) = ''user_name_lower'' # field_names rest"
  using field_names_field [of "''raw_career_data''" rest]
        field_names_field [of "''target_job_description''" rest]
        field_names_field [of "''user_name''" rest]
        field_names_field [of "''user_name_lower''" rest]
  by (simp_all add: plain_name_def)

lemma field_names_plain_text: "no_brace lit \<Longrightarrow> field_names lit = []"
  using field_names_literal [of lit "[]"] by simp

lemma field_names_PROMPT_DOCSTRING:
  "field_names PROMPT_DOCSTRING =
     [''raw_career_data'', ''target_job_description'', ''user_name'',
      ''target_job_description'', ''raw_career_data'', ''user_name'', ''user_name_lower'']"
  unfolding PROMPT_DOCSTRING_def
  by (simp only: field_names_literal [OF no_brace_texts(1)]
        field_names_literal [OF no_brace_texts(2)]
        field_names_literal [OF no_brace_texts(3)]
        field_names_literal [OF no_brace_texts(4)]
        field_names_literal [OF no_brace_texts(5)]
        field_names_literal [OF no_brace_texts(6)]
        field_names_literal [OF no_brace_texts(7)]
        field_names_plain_text [OF no_brace_texts(8)]
        field_names_slots)

lemma has_placeholderI:
  "t \<in> set placeholder_tokens \<Longrightarrow> has_placeholder (Inr (A @ t @ B))"
  by (auto simp: has_placeholder_def list_ex_iff)

lemma ascii_lower_char_fixed: "c \<notin> set ascii_uppercase \<Longrightarrow> ascii_lower_char c = c"
  by (simp add: ascii_lower_char_def ascii_uppercase_def ascii_lowercase_def)

lemma escape_braces_Nil: "escape_braces [] = []"
  by (simp add: escape_braces_def str_replace_def)

lemma escape_braces_Cons:
  "escape_braces (c # s) =
     (if c = CHR ''{'' then CHR ''{'' # CHR ''{'' # escape_braces s
      else if c = CHR ''}'' then CHR ''}'' # CHR ''}'' # escape_braces s
      else c # escape_braces s)"
  by (simp add: escape_braces_def str_replace_def)

lemma escape_braces_append: "escape_braces (a @ b) = escape_braces a @ escape_braces b"
  by (simp add: escape_braces_def str_replace_def)

lemma escape_braces_no_brace: "no_brace w \<Longrightarrow> escape_braces w = w"
  by (induction w) (simp_all add: escape_braces_Nil escape_braces_Cons no_brace_def)

lemma prefix_escape_braces:
  "no_brace w \<Longrightarrow> prefix (w @ [CHR ''}'']) (escape_braces s) \<Longrightarrow> prefix (w @ [CHR ''}'']) s"
proof (induction w arbitrary: s)
  case Nil
  then show ?case
    by (cases s) (auto simp: escape_braces_Nil escape_braces_Cons split: if_splits)
next
  case (Cons a w)
  then have a: "a \<noteq> CHR ''{''" "a \<noteq> CHR ''}''" and nb: "no_brace w"
    by (simp_all add: no_brace_def)
  show ?case
  proof (cases s)
    case Nil
    with Cons.prems show ?thesis by (simp add: escape_braces_Nil)
  next
    case (Cons c s')
    with Cons.prems(2) a have "c = a" and "prefix (w @ [CHR ''}'']) (escape_braces s')"
      by (auto simp: escape_braces_Cons split: if_splits)
    with Cons.IH [OF nb] Cons show ?thesis by simp
  qed
qed

lemma sublist_escape_braces_imp:
  assumes nb: "no_brace w"
  shows "sublist (CHR ''{'' # w @ [CHR ''}'']) (escape_braces s)
           \<Longrightarrow> sublist (CHR ''{'' # w @ [CHR ''}'']) s"
proof (induction s)
  case Nil
  then show ?case by (simp add: escape_braces_Nil)
next
  case (Cons c s)
  let ?t = "CHR ''{'' # w @ [CHR ''}'']"
  have hd_w: "\<not> prefix (w @ [CHR ''}'']) (CHR ''{'' # xs)" for xs
    using nb by (cases w) (simp_all add: no_brace_def)
  consider (inner) "sublist ?t (escape_braces s)" | (here) "c = CHR ''{''" "prefix (w @ [CHR ''}'']) (escape_braces s)"
    using Cons.prems hd_w
    by (auto simp: escape_braces_Cons sublist_Cons_right split: if_splits)
  then show ?case
  proof cases
    case inner
    then show ?thesis using Cons.IH by (simp add: sublist_Cons_right)
  next
    case here
    then have "prefix ?t (c # s)"
      using prefix_escape_braces [OF nb] by simp
    then show ?thesis by (simp add: sublist_Cons_right)
  qed
qed

lemma sublist_escape_braces:
  assumes nb: "no_brace w"
  shows "sublist (CHR ''{'' # w @ [CHR ''}'']) (escape_braces s)
           \<longleftrightarrow> sublist (CHR ''{'' # w @ [CHR ''}'']) s"
proof
  assume "sublist (CHR ''{'' # w @ [CHR ''}'']) (escape_braces s)"
  then show "sublist (CHR ''{'' # w @ [CHR ''}'']) s"
    by (rule sublist_escape_braces_imp [OF nb])
next
  let ?t = "CHR ''{'' # w @ [CHR ''}'']"
  assume "sublist ?t s"
  then obtain ps ss where s: "s = ps @ ?t @ ss"
    by (auto simp: sublist_def)
  have et: "escape_braces ?t = [CHR ''{''] @ ?t @ [CHR ''}'']"
    using escape_braces_append [of "CHR ''{'' # w" "[CHR ''}'']"]
    by (simp add: escape_braces_Cons escape_braces_Nil escape_braces_no_brace [OF nb])
  have "escape_braces s = escape_braces ps @ escape_braces ?t @ escape_braces ss"
    unfolding s by (simp only: escape_braces_append)
  then have "escape_braces s =
      (escape_braces ps @ [CHR ''{'']) @ ?t @ ([CHR ''}''] @ escape_braces ss)"
    by (simp only: et append_assoc)
  then show "sublist ?t (escape_braces s)"
    by (metis sublist_appendI)
qed

lemma sublist_skip_literal:
  assumes lit: "no_brace lit" and sp: "CHR '' '' \<in> set lit" and w: "CHR '' '' \<notin> set w"
  shows "sublist (CHR ''{'' # w @ [CHR ''}'']) (xs @ lit @ ys)
           \<longleftrightarrow> sublist (CHR ''{'' # w @ [CHR ''}'']) xs \<or> sublist (CHR ''{'' # w @ [CHR ''}'']) ys"
proof
  let ?t = "CHR ''{'' # w @ [CHR ''}'']"
  have open_lit: "CHR ''{'' \<notin> set lit" and close_lit: "CHR ''}'' \<notin> set lit"
    using lit by (auto simp: no_brace_def list_all_iff)
  have sp_t: "CHR '' '' \<notin> set ?t" using w by simp
  have not_in_lit: "\<not> sublist ?t lit"
    using open_lit set_mono_sublist [of ?t lit] by auto
  have starts: "sublist ?t ys" if "?t = t1 @ t2" "suffix t1 lit" "prefix t2 ys" for t1 t2
  proof (cases t1)
    case Nil
    with that show ?thesis by auto
  next
    case (Cons a t1')
    with that(1) have "a = CHR ''{''" by simp
    with Cons that(2) open_lit set_mono_suffix [of t1 lit] show ?thesis by auto
  qed
  have ends: "sublist ?t xs" if "?t = t1 @ t2" "suffix t1 xs" "prefix t2 (lit @ ys)" for t1 t2
  proof (cases "t2 = []")
    case True
    with that show ?thesis by auto
  next
    case False
    then have last: "last t2 = CHR ''}''"
      using that(1) by (metis last_appendR last_snoc append_Cons)
    from that(3) consider "prefix t2 lit" | t2' where "t2 = lit @ t2'"
      by (auto simp: prefix_append)
    then show ?thesis
    proof cases
      case 1
      then have "set t2 \<subseteq> set lit" by (rule set_mono_prefix)
      with False last close_lit show ?thesis
        using last_in_set [of t2] by auto
    next
      case 2
      then have "set lit \<subseteq> set ?t" using that(1) by auto
      with sp sp_t show ?thesis by blast
    qed
  qed
  assume "sublist ?t (xs @ lit @ ys)"
  then consider "sublist ?t xs" | "sublist ?t (lit @ ys)"
    | t1 t2 where "?t = t1 @ t2" "suffix t1 xs" "prefix t2 (lit @ ys)"
    by (auto simp: sublist_append [of ?t xs])
  then show "sublist ?t xs \<or> sublist ?t ys"
  proof cases
    case 2
    then consider "sublist ?t lit" | "sublist ?t ys"
      | t1 t2 where "?t = t1 @ t2" "suffix t1 lit" "prefix t2 ys"
      by (auto simp: sublist_append [of ?t lit])
    then show ?thesis using not_in_lit starts by cases auto
  qed (use ends in auto)
next
  assume "sublist (CHR ''{'' # w @ [CHR ''}'']) xs \<or> sublist (CHR ''{'' # w @ [CHR ''}'']) ys"
  then show "sublist (CHR ''{'' # w @ [CHR ''}'']) (xs @ lit @ ys)"
    by (auto simp: sublist_append)
qed

lemma space_in_texts:
  "CHR '' '' \<in> set text_0" "CHR '' '' \<in> set text_1" "CHR '' '' \<in> set text_2"
  "CHR '' '' \<in> set text_3" "CHR '' '' \<in> set text_4" "CHR '' '' \<in> set text_5"
  "CHR '' '' \<in> set text_6" "CHR '' '' \<in> set text_7"
  by (simp_all add: text_0_def text_1_def text_2_def text_3_def
        text_4_def text_5_def text_6_def text_7_def)

lemma sublist_skip_first:
  assumes "no_brace lit" "CHR '' '' \<in> set lit" "CHR '' '' \<notin> set w"
  shows "sublist (CHR ''{'' # w @ [CHR ''}'']) (lit @ ys) \<longleftrightarrow> sublist (CHR ''{'' # w @ [CHR ''}'']) ys"
  using sublist_skip_literal [OF assms, of "[]" ys] by simp

lemma sublist_skip_last:
  assumes "no_brace lit" "CHR '' '' \<in> set lit" "CHR '' '' \<notin> set w"
  shows "sublist (CHR ''{'' # w @ [CHR ''}'']) (xs @ lit) \<longleftrightarrow> sublist (CHR ''{'' # w @ [CHR ''}'']) xs"
  using sublist_skip_literal [OF assms, of xs "[]"] by simp

lemma token_in_prompt:
  assumes w: "CHR '' '' \<notin> set w"
  shows "sublist (CHR ''{'' # w @ [CHR ''}''])
           (text_0 @ v1 @ text_1 @ v2 @ text_2 @ v3 @ text_3 @ v4 @
            text_4 @ v5 @ text_5 @ v6 @ text_6 @ v7 @ text_7)
         \<longleftrightarrow> sublist (CHR ''{'' # w @ [CHR ''}'']) v1 \<or> sublist (CHR ''{'' # w @ [CHR ''}'']) v2
           \<or> sublist (CHR ''{'' # w @ [CHR ''}'']) v3 \<or> sublist (CHR ''{'' # w @ [CHR ''}'']) v4
           \<or> sublist (CHR ''{'' # w @ [CHR ''}'']) v5 \<or> sublist (CHR ''{'' # w @ [CHR ''}'']) v6
           \<or> sublist (CHR ''{'' # w @ [CHR ''}'']) v7"
  by (simp only: sublist_skip_first [OF no_brace_texts(1) space_in_texts(1) w]
        sublist_skip_literal [OF no_brace_texts(2) space_in_texts(2) w]
        sublist_skip_literal [OF no_brace_texts(3) space_in_texts(3) w]
        sublist_skip_literal [OF no_brace_texts(4) space_in_texts(4) w]
        sublist_skip_literal [OF no_brace_texts(5) space_in_texts(5) w]
        sublist_skip_literal [OF no_brace_texts(6) space_in_texts(6) w]
        sublist_skip_literal [OF no_brace_texts(7) space_in_texts(7) w]
        sublist_skip_last [OF no_brace_texts(8) space_in_texts(8) w])

lemma placeholder_token_shape:
  assumes "t \<in> set placeholder_tokens"
  obtains w where "t = CHR ''{'' # w @ [CHR ''}'']" "no_brace w" "CHR '' '' \<notin> set w"
proof -
  from assms consider "t = CHR ''{'' # ''raw_career_data'' @ [CHR ''}'']"
    | "t = CHR ''{'' # ''target_job_description'' @ [CHR ''}'']"
    | "t = CHR ''{'' # ''user_name'' @ [CHR ''}'']"
    | "t = CHR ''{'' # ''user_name_lower'' @ [CHR ''}'']"
    by (auto simp: placeholder_tokens_def)
  then show ?thesis
  proof cases
    case 1
    show ?thesis by (rule that [OF 1]) (simp_all add: no_brace_def)
  next
    case 2
    show ?thesis by (rule that [OF 2]) (simp_all add: no_brace_def)
  next
    case 3
    show ?thesis by (rule that [OF 3]) (simp_all add: no_brace_def)
  next
    case 4
    show ?thesis by (rule that [OF 4]) (simp_all add: no_brace_def)
  qed
qed

lemma placeholder_in_prompt:
  assumes t: "t \<in> set placeholder_tokens"
  shows "sublist t
           (text_0 @ escape_braces r @ text_1 @ escape_braces j @ text_2 @ n @ text_3 @
            escape_braces j @ text_4 @ escape_braces r @ text_5 @ n @ text_6 @ h @ text_7)
         \<longleftrightarrow> sublist t r \<or> sublist t j \<or> sublist t n \<or> sublist t h"
proof -
  from t obtain w where w: "t = CHR ''{'' # w @ [CHR ''}'']" "no_brace w" "CHR '' '' \<notin> set w"
    by (rule placeholder_token_shape)
  show ?thesis
    unfolding w(1) token_in_prompt [OF w(3)] sublist_escape_braces [OF w(2)]
    by blast
qed

subsection \<open>The client and the program\<close>

lemmas path_defs = path_mapping_def path_attribute_def path_legacy_def bind_exn_def seq_index_def

lemma extract_text_cases:
  "extract_text resp =
     (case path_mapping resp of
        Inr v \<Rightarrow> Inr v
      | Inl e1 \<Rightarrow>
          (case path_attribute resp of
             Inr v \<Rightarrow> Inr v
           | Inl e2 \<Rightarrow>
               (case path_legacy resp of
                  Inr v \<Rightarrow> Inr v
                | Inl e3 \<Rightarrow> Inl (RuntimeError ''Unexpected OpenAI response structure'' e3))))"
  by (simp add: extract_text_def)

lemma main_after_setup:
  assumes "resolve_api_key w args = Some key" and "key \<noteq> []"
    and "read_file_or_default (open_read w) (arg_raw_file args) RAW_SAMPLE = Inr raw"
    and "read_file_or_default (open_read w) (arg_jd_file args) JD_SAMPLE = Inr jd"
    and "build_prompt (unicode_lower w) raw jd (arg_name args) = Inr prompt"
  shows "main w args =
     (case call_openai_chat (create w key) prompt (arg_model args) 0 (arg_max_tokens args) of
        Inl exc \<Rightarrow> ([], Return 3)
      | Inr a \<Rightarrow>
          (case stdout_write (if truthy a then a else PStr []) of
             Inl e \<Rightarrow> ([], Raise e)
           | Inr out \<Rightarrow> (out, Return 0)))"
  using assms by (simp add: main_def)

lemma default_setup:
  "read_file_or_default rd (arg_raw_file default_args) RAW_SAMPLE = Inr RAW_SAMPLE"
  "read_file_or_default rd (arg_jd_file default_args) JD_SAMPLE = Inr JD_SAMPLE"
  by (simp_all add: read_file_or_default_def default_args_def)

lemma call_openai_chat_answer:
  "call_openai_chat (\<lambda>req. Inr resp) p m t k = extract_text resp"
  by (simp add: call_openai_chat_def bind_exn_def)

subsection \<open>The prompt builder never fails\<close>

text \<open>
  C8. \<^verbatim>\<open>build_prompt\<close> is total: for every three input strings, empty ones and
  strings full of braces included, it returns a composed prompt and raises nothing.
\<close>

theorem build_prompt_total: "\<exists>prompt. build_prompt ul r j n = Inr prompt"
  by (simp add: build_prompt_eq)

subsection \<open>Substitution is a single pass\<close>

text \<open>
  C10. Formatting the template reads the template once and never reads a substituted
  value as format syntax: whatever four strings are bound to the four slots, the result
  is the text of the template with these strings, exactly as passed, in place of the
  seven fields, and no exception. For \<^verbatim>\<open>build_prompt\<close> this gives the composed prompt
  for every input, a \<^verbatim>\<open>user_name\<close> with braces included.
\<close>

theorem build_prompt_single_pass:
  "str_format PROMPT_DOCSTRING
     [(''raw_career_data'', a), (''target_job_description'', b),
      (''user_name'', c), (''user_name_lower'', d)] =
   Inr (text_0 @ a @ text_1 @ b @ text_2 @ c @ text_3 @ b @
        text_4 @ a @ text_5 @ c @ text_6 @ d @ text_7)
   \<and> build_prompt ul r j n =
     Inr (text_0 @ escape_braces r @ text_1 @ escape_braces j @ text_2 @ n @ text_3 @
          escape_braces j @ text_4 @ escape_braces r @ text_5 @ n @ text_6 @
          user_name_lower ul n @ text_7)"
  by (simp add: build_prompt_eq str_format_PROMPT_DOCSTRING)

subsection \<open>Braces of the raw text and of the job description\<close>

text \<open>
  C1. The claim: text with braces given as raw career data or as job description
  adds no placeholder to the composed prompt, and its braces appear in the prompt
  singly, as written. The program doubles every brace of these two inputs and
  \<^verbatim>\<open>format\<close> copies the doubled braces into the prompt, since it never reads a
  substituted value as format syntax: for the raw career data \<^verbatim>\<open>{invented_slot}\<close>
  the composed prompt holds \<^verbatim>\<open>{{invented_slot}}\<close> at both places of that slot.
\<close>

theorem build_prompt_doubles_braces:
  "build_prompt ul ''{invented_slot}'' ''Need SQL skills'' ''Jo Lee'' =
     Inr (text_0 @ ''{{invented_slot}}'' @ text_1 @ ''Need SQL skills'' @ text_2 @
          ''Jo Lee'' @ text_3 @ ''Need SQL skills'' @ text_4 @ ''{{invented_slot}}'' @
          text_5 @ ''Jo Lee'' @ text_6 @ ''jolee'' @ text_7)"
  by (simp add: build_prompt_eq escape_braces_def str_replace_def user_name_lower_def
        str_lower_def is_ascii_def ascii_lower_char_def ascii_uppercase_def ascii_lowercase_def)

subsection \<open>Braces of the candidate name\<close>

text \<open>
  C2. The claim: the candidate name goes through the same brace escaping as the other
  two inputs before it is substituted. The program passes \<^verbatim>\<open>user_name\<close> to \<^verbatim>\<open>format\<close>
  as it is: the name \<^verbatim>\<open>{x}\<close> stands in the composed prompt as \<^verbatim>\<open>{x}\<close>, where the
  escaping applied to the other two inputs would have made it \<^verbatim>\<open>{{x}}\<close>.
\<close>

theorem build_prompt_name_not_escaped:
  "build_prompt ul [] [] ''{x}'' =
     Inr (text_0 @ text_1 @ text_2 @ ''{x}'' @ text_3 @ text_4 @ text_5 @ ''{x}'' @
          text_6 @ ''{x}'' @ text_7)
   \<and> escape_braces ''{x}'' = ''{{x}}''"
  by (simp add: build_prompt_eq escape_braces_def str_replace_def user_name_lower_def
        str_lower_def is_ascii_def ascii_lower_char_def ascii_uppercase_def ascii_lowercase_def)

subsection \<open>Placeholder tokens in the composed prompt\<close>

text \<open>
  C4, as stated: no composed prompt contains one of the four placeholder tokens. It
  fails for an input that itself contains such a token: the candidate name
  \<^verbatim>\<open>{user_name}\<close> is copied into the prompt.
\<close>

theorem placeholder_from_input:
  "has_placeholder (build_prompt id [] [] ''{user_name}'')"
proof -
  have "build_prompt id [] [] ''{user_name}'' =
      Inr ((text_0 @ text_1 @ text_2) @ ''{user_name}'' @
           (text_3 @ text_4 @ text_5 @ ''{user_name}'' @ text_6 @ ''{user_name}'' @ text_7))"
    by (simp add: build_prompt_eq escape_braces_def str_replace_def user_name_lower_def
        str_lower_def is_ascii_def ascii_lower_char_def ascii_uppercase_def ascii_lowercase_def)
  moreover have "''{user_name}'' \<in> set placeholder_tokens"
    by (simp add: placeholder_tokens_def)
  ultimately show ?thesis
    by (simp only: has_placeholderI)
qed

text \<open>
  C4, amended. The fields of the template are named by the four slots and by nothing
  else, and every one of them is replaced, for every input. One of the four placeholder
  tokens occurs in the composed prompt exactly when it occurs in the raw career text, in
  the job description, in the candidate name or in the normalized handle: no token of
  the template is left, and a token in the prompt is text that an input has brought.
\<close>

theorem placeholder_only_from_input:
  "set (field_names PROMPT_DOCSTRING) =
     {''raw_career_data'', ''target_job_description'', ''user_name'', ''user_name_lower''}
   \<and> (\<exists>p. build_prompt ul r j n = Inr p \<and>
         (\<forall>t\<in>set placeholder_tokens.
            sublist t p \<longleftrightarrow>
              sublist t r \<or> sublist t j \<or> sublist t n \<or> sublist t (user_name_lower ul n)))"
proof -
  have "set (field_names PROMPT_DOCSTRING) =
           {''raw_career_data'', ''target_job_description'', ''user_name'', ''user_name_lower''}"
    by (simp add: field_names_PROMPT_DOCSTRING insert_commute)
  then show ?thesis
    using placeholder_in_prompt [of _ r j n "user_name_lower ul n"]
    by (simp add: build_prompt_eq)
qed

theorem placeholder_only_from_input_witness:
  "\<not> has_placeholder (build_prompt id ''worked on {fake} stuff'' ''Need SQL skills'' ''Jo Lee'')
   \<and> has_placeholder (build_prompt id ''see {raw_career_data}'' ''Need SQL skills'' ''Jo Lee'')"
proof -
  let ?r = "''worked on {fake} stuff''" and ?r' = "''see {raw_career_data}''"
  let ?j = "''Need SQL skills''" and ?n = "''Jo Lee''"
  have h: "user_name_lower id ?n = ''jolee''"
    by (simp add: user_name_lower_def str_replace_def str_lower_def is_ascii_def
        ascii_lower_char_def ascii_uppercase_def ascii_lowercase_def)
  from placeholder_only_from_input [of id ?r ?j ?n]
  obtain p where p: "build_prompt id ?r ?j ?n = Inr p"
    and iff: "\<forall>t\<in>set placeholder_tokens.
        sublist t p \<longleftrightarrow> sublist t ?r \<or> sublist t ?j \<or> sublist t ?n \<or> sublist t (user_name_lower id ?n)"
    by blast
  have 1: "\<not> has_placeholder (build_prompt id ?r ?j ?n)"
    unfolding p using iff
    by (simp add: has_placeholder_def placeholder_tokens_def h sublist_Cons_right)
  from placeholder_only_from_input [of id ?r' ?j ?n]
  obtain p' where p': "build_prompt id ?r' ?j ?n = Inr p'"
    and iff': "\<forall>t\<in>set placeholder_tokens.
        sublist t p' \<longleftrightarrow> sublist t ?r' \<or> sublist t ?j \<or> sublist t ?n \<or> sublist t (user_name_lower id ?n)"
    by blast
  have 2: "has_placeholder (build_prompt id ?r' ?j ?n)"
    unfolding p' using iff'
    by (simp add: has_placeholder_def placeholder_tokens_def h sublist_Cons_right)
  show ?thesis using 1 2 by blast
qed

subsection \<open>The normalized handle\<close>

text \<open>
  C5, as stated: the handle is the lower-cased name with all whitespace removed. It
  fails for whitespace other than the space character: a tab stays.
\<close>

theorem user_name_lower_keeps_tab:
  "user_name_lower id [CHR ''A'', CHR 0x09, CHR ''B''] = [CHR ''a'', CHR 0x09, CHR ''b'']"
  by (simp add: user_name_lower_def str_replace_def str_lower_def is_ascii_def
        ascii_lower_char_def ascii_uppercase_def ascii_lowercase_def)

text \<open>
  C5, amended. The handle is \<^verbatim>\<open>lower()\<close> of the name with every space character (U+0020)
  removed and nothing else changed. For a name of ASCII characters, \<^verbatim>\<open>lower()\<close> maps the
  letters \<^verbatim>\<open>A\<close> to \<^verbatim>\<open>Z\<close> to \<^verbatim>\<open>a\<close> to \<^verbatim>\<open>z\<close> and leaves every other character as it is,
  so that a name without upper-case letters and spaces is its own handle, punctuation,
  tabs and newlines included. \<^verbatim>\<open>Alex Morgan\<close> gives \<^verbatim>\<open>alexmorgan\<close> and
  \<^verbatim>\<open>McKinsey O'Neil\<close> gives \<^verbatim>\<open>mckinseyo'neil\<close>.
\<close>

theorem user_name_lower_spec:
  "user_name_lower ul n = filter (\<lambda>c. c \<noteq> CHR '' '') (str_lower ul n)
   \<and> (list_all is_ascii n \<longrightarrow>
        user_name_lower ul n = filter (\<lambda>c. c \<noteq> CHR '' '') (map ascii_lower_char n))
   \<and> (list_all is_ascii n \<and> (\<forall>c\<in>set n. c \<notin> set ascii_uppercase \<and> c \<noteq> CHR '' '')
        \<longrightarrow> user_name_lower ul n = n)
   \<and> map ascii_lower_char ascii_uppercase = ascii_lowercase
   \<and> user_name_lower ul ''Alex Morgan'' = ''alexmorgan''
   \<and> user_name_lower ul ''McKinsey O'Neil'' = ''mckinseyo'neil''"
proof -
  have 1: "user_name_lower ul n = filter (\<lambda>c. c \<noteq> CHR '' '') (str_lower ul n)"
    by (simp add: user_name_lower_def str_replace_delete)
  have 2: "user_name_lower ul n = filter (\<lambda>c. c \<noteq> CHR '' '') (map ascii_lower_char n)"
    if "list_all is_ascii n"
    using that by (simp add: 1 str_lower_def)
  have 3: "user_name_lower ul n = n"
    if "list_all is_ascii n \<and> (\<forall>c\<in>set n. c \<notin> set ascii_uppercase \<and> c \<noteq> CHR '' '')"
  proof -
    from that have "map ascii_lower_char n = n"
      by (simp add: map_idI ascii_lower_char_fixed)
    moreover from that have "filter (\<lambda>c. c \<noteq> CHR '' '') n = n"
      by (simp add: filter_id_conv)
    ultimately show ?thesis using 2 that by simp
  qed
  have 4: "map ascii_lower_char ascii_uppercase = ascii_lowercase"
    by (simp add: ascii_lower_char_def ascii_uppercase_def ascii_lowercase_def)
  have 5: "user_name_lower ul ''Alex Morgan'' = ''alexmorgan''"
    by (simp add: user_name_lower_def str_replace_def str_lower_def is_ascii_def
        ascii_lower_char_def ascii_uppercase_def ascii_lowercase_def)
  have 6: "user_name_lower ul ''McKinsey O'Neil'' = ''mckinseyo'neil''"
    by (simp add: user_name_lower_def str_replace_def str_lower_def is_ascii_def
        ascii_lower_char_def ascii_uppercase_def ascii_lowercase_def)
  show ?thesis using 1 2 3 4 5 6 by blast
qed

theorem user_name_lower_spec_witness:
  "user_name_lower id ''Jo Lee'' = filter (\<lambda>c. c \<noteq> CHR '' '') (map ascii_lower_char ''Jo Lee'')
   \<and> user_name_lower id [CHR ''o'', CHR 0x27, CHR ''n'', CHR 0x09, CHR ''1'']
       = [CHR ''o'', CHR 0x27, CHR ''n'', CHR 0x09, CHR ''1'']"
proof -
  let ?n = "[CHR ''o'', CHR 0x27, CHR ''n'', CHR 0x09, CHR ''1'']"
  have a: "list_all is_ascii ''Jo Lee''"
    by (simp add: is_ascii_def)
  have b: "list_all is_ascii ?n \<and> (\<forall>c\<in>set ?n. c \<notin> set ascii_uppercase \<and> c \<noteq> CHR '' '')"
    by (simp add: is_ascii_def ascii_uppercase_def)
  note T = user_name_lower_spec
  have 1: "user_name_lower id ''Jo Lee'' =
      filter (\<lambda>c. c \<noteq> CHR '' '') (map ascii_lower_char ''Jo Lee'')"
    by (rule T [THEN conjunct2, THEN conjunct1, rule_format, OF a])
  have 2: "user_name_lower id ?n = ?n"
    by (rule T [THEN conjunct2, THEN conjunct2, THEN conjunct1, rule_format, OF b])
  show ?thesis by (intro conjI 1 2)
qed

subsection \<open>The fields of the template\<close>

text \<open>
  C6, as stated: the template holds the slots of the raw career data and of the job
  description once each. It holds each of them twice.
\<close>

theorem template_repeats_slots:
  "count_list (field_names PROMPT_DOCSTRING) ''raw_career_data'' = 2
   \<and> count_list (field_names PROMPT_DOCSTRING) ''target_job_description'' = 2"
  by (simp add: field_names_PROMPT_DOCSTRING)

text \<open>
  C6, amended. The template has seven replacement fields: the raw career data, the job
  description and the candidate name twice each and the normalized handle once.
  \<^verbatim>\<open>build_prompt\<close> binds each of the four slots to one value and replaces every field
  by the value of its slot, the same value at both fields of a slot.
\<close>

theorem template_fields_substituted:
  "field_names PROMPT_DOCSTRING =
     [''raw_career_data'', ''target_job_description'', ''user_name'',
      ''target_job_description'', ''raw_career_data'', ''user_name'', ''user_name_lower'']
   \<and> build_prompt ul r j n =
     Inr (text_0 @ escape_braces r @ text_1 @ escape_braces j @ text_2 @ n @ text_3 @
          escape_braces j @ text_4 @ escape_braces r @ text_5 @ n @ text_6 @
          user_name_lower ul n @ text_7)"
  by (simp add: field_names_PROMPT_DOCSTRING build_prompt_eq)

subsection \<open>The order of the access paths\<close>

text \<open>
  C3, as stated: when all three access paths fail, the error raised carries the raw
  response. The error raised is a \<^verbatim>\<open>RuntimeError\<close> with a fixed message, chained to the
  exception of the last path; it holds nothing of the response, and two different
  responses give the same error.
\<close>

theorem extraction_error_forgets_response:
  "extract_text (PDict []) =
     Inl (RuntimeError ''Unexpected OpenAI response structure'' (KeyError (KStr ''choices'')))
   \<and> extract_text (PDict [(KStr ''error'', PStr ''overloaded'')]) =
     Inl (RuntimeError ''Unexpected OpenAI response structure'' (KeyError (KStr ''choices'')))
   \<and> PDict [] \<noteq> PDict [(KStr ''error'', PStr ''overloaded'')]"
  by (simp add: extract_text_def path_defs)

text \<open>
  C3, amended. The three paths are tried in the order mapping, attribute, legacy, and
  the value of the first that does not raise is returned. When all three raise, the
  error is \<^verbatim>\<open>RuntimeError("Unexpected OpenAI response structure")\<close> chained to the
  exception of the legacy path, without the response. A response with only the legacy
  text, only the mapping content or only the attribute content gives that text.
\<close>

theorem extract_text_fallback_order:
  "(path_mapping resp = Inr v \<longrightarrow> extract_text resp = Inr v)
   \<and> (path_mapping resp = Inl e1 \<and> path_attribute resp = Inr v \<longrightarrow> extract_text resp = Inr v)
   \<and> (path_mapping resp = Inl e1 \<and> path_attribute resp = Inl e2 \<and> path_legacy resp = Inr v
        \<longrightarrow> extract_text resp = Inr v)
   \<and> (path_mapping resp = Inl e1 \<and> path_attribute resp = Inl e2 \<and> path_legacy resp = Inl e3
        \<longrightarrow> extract_text resp =
            Inl (RuntimeError ''Unexpected OpenAI response structure'' e3))
   \<and> extract_text (PDict [(KStr ''choices'', PList [PDict [(KStr ''text'', PStr t)]])])
       = Inr (PStr t)
   \<and> extract_text (PDict [(KStr ''choices'',
         PList [PDict [(KStr ''message'', PDict [(KStr ''content'', PStr t)])]])])
       = Inr (PStr t)
   \<and> extract_text (PObject [(''choices'',
         PList [PObject [(''message'', PObject [(''content'', PStr t)])]])])
       = Inr (PStr t)"
proof -
  have a: "extract_text (PDict [(KStr ''choices'', PList [PDict [(KStr ''text'', PStr t)]])])
       = Inr (PStr t)"
    by (simp add: extract_text_def path_defs)
  have b: "extract_text (PDict [(KStr ''choices'',
         PList [PDict [(KStr ''message'', PDict [(KStr ''content'', PStr t)])]])])
       = Inr (PStr t)"
    by (simp add: extract_text_def path_defs)
  have c: "extract_text (PObject [(''choices'',
         PList [PObject [(''message'', PObject [(''content'', PStr t)])]])])
       = Inr (PStr t)"
    by (simp add: extract_text_def path_defs)
  show ?thesis using a b c by (simp add: extract_text_def)
qed

theorem extract_text_fallback_order_witness:
  "extract_text (PDict [(KStr ''choices'',
       PList [PDict [(KStr ''message'', PDict [(KStr ''content'', PStr ''new'')]),
                     (KStr ''text'', PStr ''old'')]])]) = Inr (PStr ''new'')
   \<and> extract_text (PObject [(''choices'',
         PList [PObject [(''message'', PObject [(''content'', PStr ''typed'')])]])])
       = Inr (PStr ''typed'')
   \<and> extract_text (PDict [(KStr ''choices'', PList [PDict [(KStr ''text'', PStr ''old'')]])])
       = Inr (PStr ''old'')
   \<and> extract_text (PList []) =
       Inl (RuntimeError ''Unexpected OpenAI response structure'' TypeError)"
proof -
  let ?r1 = "PDict [(KStr ''choices'',
       PList [PDict [(KStr ''message'', PDict [(KStr ''content'', PStr ''new'')]),
                     (KStr ''text'', PStr ''old'')]])]"
  let ?r2 = "PObject [(''choices'',
         PList [PObject [(''message'', PObject [(''content'', PStr ''typed'')])]])]"
  let ?r3 = "PDict [(KStr ''choices'', PList [PDict [(KStr ''text'', PStr ''old'')]])]"
  have h1: "path_mapping ?r1 = Inr (PStr ''new'')"
    by (simp add: path_defs)
  have h2: "path_mapping ?r2 = Inl TypeError \<and> path_attribute ?r2 = Inr (PStr ''typed'')"
    by (simp add: path_defs)
  have h3: "path_mapping ?r3 = Inl (KeyError (KStr ''message''))
      \<and> path_attribute ?r3 = Inl (AttributeError ''choices'')
      \<and> path_legacy ?r3 = Inr (PStr ''old'')"
    by (simp add: path_defs)
  have h4: "path_mapping (PList []) = Inl TypeError
      \<and> path_attribute (PList []) = Inl (AttributeError ''choices'')
      \<and> path_legacy (PList []) = Inl TypeError"
    by (simp add: path_defs)
  from h1 extract_text_fallback_order [of ?r1 "PStr ''new''"]
  have c1: "extract_text ?r1 = Inr (PStr ''new'')" by blast
  from h2 extract_text_fallback_order [of ?r2 "PStr ''typed''" TypeError]
  have c2: "extract_text ?r2 = Inr (PStr ''typed'')" by blast
  from h3 extract_text_fallback_order [of ?r3 "PStr ''old''" "KeyError (KStr ''message'')"
      "AttributeError ''choices''"]
  have c3: "extract_text ?r3 = Inr (PStr ''old'')" by blast
  from h4 extract_text_fallback_order [of "PList []" _ TypeError "AttributeError ''choices''" TypeError]
  have c4: "extract_text (PList []) =
       Inl (RuntimeError ''Unexpected OpenAI response structure'' TypeError)" by blast
  show ?thesis using c1 c2 c3 c4 by blast
qed

subsection \<open>Exit codes\<close>

text \<open>
  C9. The claim: the exit code is 0 on success, 2 without a credential and 3 when the
  call of the completion service fails, and no other code comes from these. \<^verbatim>\<open>main\<close>
  catches every exception of \<^verbatim>\<open>call_openai_chat\<close> and returns 3, but it writes the
  value that \<^verbatim>\<open>call_openai_chat\<close> returns outside that \<^verbatim>\<open>try\<close>. For a response whose
  message content is a list, with the key given by \<^verbatim>\<open>--api-key\<close>, the mapping path
  succeeds with the list, \<^verbatim>\<open>sys.stdout.write\<close> raises \<^verbatim>\<open>TypeError\<close>, nobody catches it
  and the process ends with exit code 1.
\<close>

theorem main_uncaught_on_non_string_content:
  "main (\<lparr>unicode_lower = id, environ_OPENAI_API_KEY = None,
          open_read = (\<lambda>p. Inl ''No such file''),
          create = (\<lambda>key req. Inr (PDict [(KStr ''choices'',
             PList [PDict [(KStr ''message'',
               PDict [(KStr ''content'', PList [PStr ''RESUME TEXT''])])]])]))\<rparr> :: int world)
        (default_args\<lparr>arg_api_key := Some ''sk-test''\<rparr>) = ([], Raise TypeError)
   \<and> exit_code (Raise TypeError) = 1"
  by (simp add: main_def resolve_api_key_def default_args_def read_file_or_default_def
        build_prompt_eq call_openai_chat_def extract_text_def path_defs stdout_write_def
        exit_code_def)

subsection \<open>Responses without text\<close>

text \<open>
  C7, as stated: whenever no text can be extracted from the response, an error is raised
  and no empty output is produced. A response whose message content is \<^verbatim>\<open>None\<close> raises
  nothing: the mapping path succeeds, \<^verbatim>\<open>call_openai_chat\<close> returns \<^verbatim>\<open>None\<close>, and \<^verbatim>\<open>main\<close>
  writes the empty string and returns 0.
\<close>

theorem none_content_written_as_empty:
  "call_openai_chat
     (\<lambda>req. Inr (PDict [(KStr ''choices'',
        PList [PDict [(KStr ''message'', PDict [(KStr ''content'', PNone)])]])]))
     ''prompt'' ''gpt-5-thinking-mini'' (0::int) 1200 = Inr PNone
   \<and> main (\<lparr>unicode_lower = id, environ_OPENAI_API_KEY = Some ''sk-test'', open_read = (\<lambda>p. Inl ''No such file''),
          create = (\<lambda>key req. Inr (PDict [(KStr ''choices'',
             PList [PDict [(KStr ''message'', PDict [(KStr ''content'', PNone)])]])]))\<rparr> :: int world)
        default_args = ([], Return 0)"
proof -
  let ?resp = "PDict [(KStr ''choices'',
        PList [PDict [(KStr ''message'', PDict [(KStr ''content'', PNone)])]])]"
  let ?w = "\<lparr>unicode_lower = id, environ_OPENAI_API_KEY = Some ''sk-test'', open_read = (\<lambda>p. Inl ''No such file''),
          create = (\<lambda>key req. Inr ?resp)\<rparr> :: int world"
  have e: "extract_text ?resp = Inr PNone"
    by (simp add: extract_text_def path_defs)
  have k: "resolve_api_key ?w default_args = Some ''sk-test''"
    by (simp add: resolve_api_key_def default_args_def)
  have "main ?w default_args = ([], Return 0)"
    using e
    by (simp add: main_after_setup [OF k _ default_setup build_prompt_eq]
        call_openai_chat_answer stdout_write_def)
  then show ?thesis using e by (simp add: call_openai_chat_answer)
qed

text \<open>
  C7, amended. \<^verbatim>\<open>call_openai_chat\<close> raises its \<^verbatim>\<open>RuntimeError\<close> when all three access
  paths raise, and only then. When a path succeeds, its value is returned as it is,
  whatever it is; for a value that is \<^verbatim>\<open>None\<close>, the empty string or falsy otherwise,
  \<^verbatim>\<open>main\<close> writes the empty string and returns 0.
\<close>

theorem extraction_error_only_when_all_paths_fail:
  "(extract_text resp = Inl e \<longrightarrow>
      (\<exists>e1 e2 e3. path_mapping resp = Inl e1 \<and> path_attribute resp = Inl e2 \<and>
         path_legacy resp = Inl e3 \<and>
         e = RuntimeError ''Unexpected OpenAI response structure'' e3))
   \<and> (path_mapping resp = Inl e1 \<and> path_attribute resp = Inl e2 \<and> path_legacy resp = Inl e3
        \<longrightarrow> call_openai_chat (\<lambda>req. Inr resp) p m t k =
            Inl (RuntimeError ''Unexpected OpenAI response structure'' e3))
   \<and> (extract_text resp = Inr v \<longrightarrow> call_openai_chat (\<lambda>req. Inr resp) p m t k = Inr v)
   \<and> (resolve_api_key w args = Some key \<and> key \<noteq> [] \<and>
        read_file_or_default (open_read w) (arg_raw_file args) RAW_SAMPLE = Inr raw \<and>
        read_file_or_default (open_read w) (arg_jd_file args) JD_SAMPLE = Inr jd \<and>
        build_prompt (unicode_lower w) raw jd (arg_name args) = Inr prompt \<and>
        call_openai_chat (create w key) prompt (arg_model args) 0 (arg_max_tokens args) = Inr v \<and>
        \<not> truthy v
      \<longrightarrow> main w args = ([], Return 0))"
proof -
  have 1: "\<exists>e1 e2 e3. path_mapping resp = Inl e1 \<and> path_attribute resp = Inl e2 \<and>
         path_legacy resp = Inl e3 \<and>
         e = RuntimeError ''Unexpected OpenAI response structure'' e3"
    if "extract_text resp = Inl e"
    using that by (auto simp: extract_text_def split: sum.splits)
  have 2: "call_openai_chat (\<lambda>req. Inr resp) p m t k =
            Inl (RuntimeError ''Unexpected OpenAI response structure'' e3)"
    if "path_mapping resp = Inl e1 \<and> path_attribute resp = Inl e2 \<and> path_legacy resp = Inl e3"
    using that by (simp add: call_openai_chat_answer extract_text_def)
  have 3: "call_openai_chat (\<lambda>req. Inr resp) p m t k = Inr v" if "extract_text resp = Inr v"
    using that by (simp add: call_openai_chat_answer)
  have 4: "main w args = ([], Return 0)"
    if "resolve_api_key w args = Some key \<and> key \<noteq> [] \<and>
        read_file_or_default (open_read w) (arg_raw_file args) RAW_SAMPLE = Inr raw \<and>
        read_file_or_default (open_read w) (arg_jd_file args) JD_SAMPLE = Inr jd \<and>
        build_prompt (unicode_lower w) raw jd (arg_name args) = Inr prompt \<and>
        call_openai_chat (create w key) prompt (arg_model args) 0 (arg_max_tokens args) = Inr v \<and>
        \<not> truthy v"
    using that
    by (simp add: main_after_setup [of w args key raw jd prompt] stdout_write_def)
  show ?thesis using 1 2 3 4 by blast
qed

theorem extraction_error_only_when_all_paths_fail_witness:
  "extract_text (PDict []) =
     Inl (RuntimeError ''Unexpected OpenAI response structure'' (KeyError (KStr ''choices'')))
   \<and> path_mapping (PDict []) = Inl (KeyError (KStr ''choices''))
   \<and> path_attribute (PDict []) = Inl (AttributeError ''choices'')
   \<and> path_legacy (PDict []) = Inl (KeyError (KStr ''choices''))
   \<and> call_openai_chat (\<lambda>req. Inr (PDict [])) ''prompt'' ''gpt-5-thinking-mini'' (0::int) 1200 =
       Inl (RuntimeError ''Unexpected OpenAI response structure'' (KeyError (KStr ''choices'')))
   \<and> call_openai_chat
       (\<lambda>req. Inr (PDict [(KStr ''choices'', PList [PDict [(KStr ''text'', PStr [])]])]))
       ''prompt'' ''gpt-5-thinking-mini'' (0::int) 1200 = Inr (PStr [])
   \<and> main (\<lparr>unicode_lower = id, environ_OPENAI_API_KEY = Some ''sk-test'', open_read = (\<lambda>p. Inl ''No such file''),
          create = (\<lambda>key req. Inr (PDict [(KStr ''choices'',
             PList [PDict [(KStr ''text'', PStr [])]])]))\<rparr> :: int world)
        default_args = ([], Return 0)"
proof -
  let ?msg = "''Unexpected OpenAI response structure''"
  let ?r = "PDict [(KStr ''choices'', PList [PDict [(KStr ''text'', PStr [])]])]"
  let ?w = "\<lparr>unicode_lower = id, environ_OPENAI_API_KEY = Some ''sk-test'', open_read = (\<lambda>p. Inl ''No such file''),
          create = (\<lambda>key req. Inr ?r)\<rparr> :: int world"
  obtain prompt where p: "build_prompt id RAW_SAMPLE JD_SAMPLE (arg_name default_args) = Inr prompt"
    using build_prompt_eq by blast
  have h1: "extract_text (PDict []) = Inl (RuntimeError ?msg (KeyError (KStr ''choices'')))"
    by (simp add: extract_text_def path_defs)
  have h2: "path_mapping (PDict []) = Inl (KeyError (KStr ''choices''))
      \<and> path_attribute (PDict []) = Inl (AttributeError ''choices'')
      \<and> path_legacy (PDict []) = Inl (KeyError (KStr ''choices''))"
    by (simp add: path_defs)
  have h3: "extract_text ?r = Inr (PStr [])"
    by (simp add: extract_text_def path_defs)
  have k: "resolve_api_key ?w default_args = Some ''sk-test'' \<and> ''sk-test'' \<noteq> []"
    by (simp add: resolve_api_key_def default_args_def)
  have s: "call_openai_chat (create ?w ''sk-test'') prompt (arg_model default_args) 0
      (arg_max_tokens default_args) = Inr (PStr []) \<and> \<not> truthy (PStr [])"
    by (simp add: call_openai_chat_def extract_text_def path_defs)
  have h2a: "path_mapping (PDict []) = Inl (KeyError (KStr ''choices''))"
    and h2b: "path_attribute (PDict []) = Inl (AttributeError ''choices'')"
    and h2c: "path_legacy (PDict []) = Inl (KeyError (KStr ''choices''))"
    using h2 by simp_all
  have pre: "resolve_api_key ?w default_args = Some ''sk-test'' \<and> ''sk-test'' \<noteq> [] \<and>
      read_file_or_default (open_read ?w) (arg_raw_file default_args) RAW_SAMPLE = Inr RAW_SAMPLE \<and>
      read_file_or_default (open_read ?w) (arg_jd_file default_args) JD_SAMPLE = Inr JD_SAMPLE \<and>
      build_prompt (unicode_lower ?w) RAW_SAMPLE JD_SAMPLE (arg_name default_args) = Inr prompt \<and>
      call_openai_chat (create ?w ''sk-test'') prompt (arg_model default_args) 0
        (arg_max_tokens default_args) = Inr (PStr []) \<and>
      \<not> truthy (PStr [])"
    using k s p default_setup [of "open_read ?w"] by (intro conjI) simp_all
  note T = extraction_error_only_when_all_paths_fail
  have c1: "\<exists>e1 e2 e3. path_mapping (PDict []) = Inl e1 \<and> path_attribute (PDict []) = Inl e2 \<and>
      path_legacy (PDict []) = Inl e3 \<and>
      RuntimeError ?msg (KeyError (KStr ''choices'')) = RuntimeError ?msg e3"
    by (rule T [THEN conjunct1, rule_format, OF h1])
  have c2: "call_openai_chat (\<lambda>req. Inr (PDict [])) ''prompt'' ''gpt-5-thinking-mini'' (0::int) 1200 =
       Inl (RuntimeError ?msg (KeyError (KStr ''choices'')))"
    by (rule T [THEN conjunct2, THEN conjunct1, rule_format, OF h2])
  have c3: "call_openai_chat (\<lambda>req. Inr ?r) ''prompt'' ''gpt-5-thinking-mini'' (0::int) 1200
      = Inr (PStr [])"
    by (rule T [THEN conjunct2, THEN conjunct2, THEN conjunct1, rule_format, OF h3])
  have c4: "main ?w default_args = ([], Return 0)"
    by (rule T [THEN conjunct2, THEN conjunct2, THEN conjunct2, rule_format, OF pre])
  show ?thesis
    by (intro conjI h1 h2a h2b h2c c2 c3 c4)
qed

end
